theory Spec2Isabelle
  imports Complex_Main
begin

section \<open>ISS position exporter: the poll task of setup-position-tracking.ts\<close>

text \<open>
  The file under verification is \<^verbatim>\<open>src/iss-exporter/src/setup-position-tracking.ts\<close>.
  Its core is the async closure \<^verbatim>\<open>loadPosition\<close> returned by \<^verbatim>\<open>positionLoader\<close>:
  it awaits \<^verbatim>\<open>fetch(url, {signal})\<close> and \<^verbatim>\<open>response.json()\<close> inside one try block,
  checks \<^verbatim>\<open>response.ok\<close>, checks the truthiness of the payload and of three of its
  properties, and calls \<^verbatim>\<open>set(Number(...))\<close> on three gauges.

  The network and the body parser are the environment: one poll is modelled as a
  function of what the two awaits produced (\<open>io\<close> below) and of the state of the
  collaborators the closure writes to (the three gauges and the error log).
\<close>

subsection \<open>JavaScript values as \<^verbatim>\<open>response.json()\<close> produces them\<close>

text \<open>
  A JavaScript number is an IEEE double. It is represented by its value: the two
  infinities, NaN, the negative zero, and every other double by the rational it equals
  (\<open>Finite 0\<close> is the positive zero). No arithmetic is done on numbers by the code.
\<close>

datatype double = NaN | Infinity | NegInfinity | NegZero | Finite rat

text \<open>
  The value of a parsed JSON text: null, a boolean, a number, a string, an array, or an
  object whose own properties are the members of the JSON text in their order (a
  repeated key is overwritten by its last occurrence). \<open>JSUndefined\<close> is what reading
  an absent property yields. Strings are lists of code units below 256.
\<close>

datatype js =
    JSUndefined
  | JSNull
  | JSBoolean bool
  | JSNumber double
  | JSString string
  | JSArray "js list"
  | JSObject "(string \<times> js) list"

text \<open>An exception value: the \<^verbatim>\<open>name\<close> and \<^verbatim>\<open>message\<close> of an \<^verbatim>\<open>Error\<close> object.\<close>

datatype error = Error (error_name: string) (message: string)

definition TypeError :: "string \<Rightarrow> error" where
  "TypeError m = Error ''TypeError'' m"

text \<open>\<^verbatim>\<open>ToBoolean\<close>: what \<^verbatim>\<open>!v\<close> negates.\<close>

fun truthy :: "js \<Rightarrow> bool" where
  "truthy JSUndefined = False"
| "truthy JSNull = False"
| "truthy (JSBoolean b) = b"
| "truthy (JSNumber d) = (d \<noteq> Finite 0 \<and> d \<noteq> NegZero \<and> d \<noteq> NaN)"
| "truthy (JSString s) = (s \<noteq> [])"
| "truthy (JSArray xs) = True"
| "truthy (JSObject ps) = True"

definition own_property :: "(string \<times> js) list \<Rightarrow> string \<Rightarrow> js option" where
  "own_property ps k = map_of (rev ps) k"

text \<open>
  Property read \<^verbatim>\<open>v.k\<close>, for a name \<open>k\<close> that no built-in prototype defines (the
  code reads \<^verbatim>\<open>altitude\<close>, \<^verbatim>\<open>latitude\<close> and \<^verbatim>\<open>longitude\<close> only). Reading a property of
  \<^verbatim>\<open>undefined\<close> or \<^verbatim>\<open>null\<close> throws; on an object it is the own property or
  \<^verbatim>\<open>undefined\<close>; on every other value the prototype chain is searched and nothing is
  found.
\<close>

fun Get :: "js \<Rightarrow> string \<Rightarrow> error + js" where
  "Get JSUndefined k = Inl (TypeError (''Cannot read properties of undefined (reading '' @ k @ '')''))"
| "Get JSNull k = Inl (TypeError (''Cannot read properties of null (reading '' @ k @ '')''))"
| "Get (JSObject ps) k = Inr (case own_property ps k of Some v \<Rightarrow> v | None \<Rightarrow> JSUndefined)"
| "Get v k = Inr JSUndefined"

subsection \<open>\<^verbatim>\<open>Number(v)\<close>\<close>

text \<open>
  A string under construction. The decimal text of a double (\<^verbatim>\<open>Number::toString\<close>)
  is not computed: it stays the piece \<open>NumberToString d\<close>.
\<close>

datatype piece = Chars string | NumberToString double

type_synonym js_text = "piece list"

text \<open>
  The result of \<^verbatim>\<open>Number(v)\<close>: a double that the model knows, or \<open>Parsed t\<close>, the
  double that \<^verbatim>\<open>StringToNumber\<close> assigns to the text \<open>t\<close> where the model does not
  compute it (the rounding of a numeric literal to a double is not modelled).
\<close>

datatype number = Double double | Parsed js_text

text \<open>
  \<^verbatim>\<open>ToString\<close> of a value born from JSON. For an object, \<^verbatim>\<open>OrdinaryToPrimitive\<close>
  looks up \<^verbatim>\<open>toString\<close> and \<^verbatim>\<open>valueOf\<close>: an own property of either name holds a JSON
  value, which is not callable, and is skipped; the inherited
  \<^verbatim>\<open>Object.prototype.valueOf\<close> returns the object itself, which is not a primitive,
  and is skipped too; the inherited \<^verbatim>\<open>Object.prototype.toString\<close> returns
  \<^verbatim>\<open>[object Object]\<close>. So an object with an own property \<^verbatim>\<open>toString\<close> has no method
  left and the conversion throws a TypeError; any other object converts. An array
  converts through \<^verbatim>\<open>Array.prototype.join\<close>, which converts each element other than
  \<^verbatim>\<open>undefined\<close> and \<^verbatim>\<open>null\<close> in turn.
\<close>

definition cannot_convert :: error where
  "cannot_convert = TypeError ''Cannot convert object to primitive value''"

fun ToString :: "js \<Rightarrow> error + js_text"
  and join :: "js list \<Rightarrow> error + js_text" where
  "ToString JSUndefined = Inr [Chars ''undefined'']"
| "ToString JSNull = Inr [Chars ''null'']"
| "ToString (JSBoolean b) = Inr [Chars (if b then ''true'' else ''false'')]"
| "ToString (JSNumber d) = Inr [NumberToString d]"
| "ToString (JSString s) = Inr [Chars s]"
| "ToString (JSArray xs) = join xs"
| "ToString (JSObject ps) =
     (if own_property ps ''toString'' \<noteq> None then Inl cannot_convert
      else Inr [Chars ''[object Object]''])"
| "join [] = Inr []"
| "join (x # xs) =
     (case (if x = JSUndefined \<or> x = JSNull then Inr [] else ToString x) of
        Inl e \<Rightarrow> Inl e
      | Inr t \<Rightarrow>
          (case join xs of
             Inl e \<Rightarrow> Inl e
           | Inr ts \<Rightarrow> Inr (t @ (if xs = [] then [] else [Chars '','']) @ ts)))"

text \<open>
  The grammar \<^verbatim>\<open>StringNumericLiteral\<close> of ECMAScript, as a recogniser: optional white
  space around nothing or around one \<^verbatim>\<open>StrNumericLiteral\<close>.
\<close>

definition StrWhiteSpaceChar :: "char \<Rightarrow> bool" where
  "StrWhiteSpaceChar c \<longleftrightarrow>
     c \<in> {CHR 0x09, CHR 0x0A, CHR 0x0B, CHR 0x0C, CHR 0x0D, CHR 0x20, CHR 0xA0}"

definition DecimalDigit :: "char \<Rightarrow> bool" where
  "DecimalDigit c \<longleftrightarrow> c \<in> set ''0123456789''"

definition DecimalDigits :: "string \<Rightarrow> bool" where
  "DecimalDigits s \<longleftrightarrow> s \<noteq> [] \<and> list_all DecimalDigit s"

definition SignedInteger :: "string \<Rightarrow> bool" where
  "SignedInteger s =
     (case s of
        [] \<Rightarrow> False
      | c # t \<Rightarrow> if c = CHR ''+'' \<or> c = CHR ''-'' then DecimalDigits t else DecimalDigits s)"

definition ExponentPart_opt :: "string \<Rightarrow> bool" where
  "ExponentPart_opt s =
     (case s of
        [] \<Rightarrow> True
      | c # t \<Rightarrow> (c = CHR ''e'' \<or> c = CHR ''E'') \<and> SignedInteger t)"

definition StrUnsignedDecimalLiteral :: "string \<Rightarrow> bool" where
  "StrUnsignedDecimalLiteral s =
     (s = ''Infinity'' \<or>
      (let ip = takeWhile DecimalDigit s; r = dropWhile DecimalDigit s in
       case r of
         [] \<Rightarrow> ip \<noteq> []
       | c # t \<Rightarrow>
           if c = CHR ''.''
           then (ip \<noteq> [] \<or> takeWhile DecimalDigit t \<noteq> []) \<and>
                ExponentPart_opt (dropWhile DecimalDigit t)
           else ip \<noteq> [] \<and> ExponentPart_opt r))"

definition StrDecimalLiteral :: "string \<Rightarrow> bool" where
  "StrDecimalLiteral s =
     (case s of
        [] \<Rightarrow> False
      | c # t \<Rightarrow>
          if c = CHR ''+'' \<or> c = CHR ''-'' then StrUnsignedDecimalLiteral t
          else StrUnsignedDecimalLiteral s)"

definition digits_of :: "string \<Rightarrow> string \<Rightarrow> bool" where
  "digits_of alphabet s \<longleftrightarrow> s \<noteq> [] \<and> list_all (\<lambda>c. c \<in> set alphabet) s"

definition NonDecimalIntegerLiteral :: "string \<Rightarrow> bool" where
  "NonDecimalIntegerLiteral s =
     (case s of
        z # x # t \<Rightarrow>
          z = CHR ''0'' \<and>
          (if x = CHR ''b'' \<or> x = CHR ''B'' then digits_of ''01'' t
           else if x = CHR ''o'' \<or> x = CHR ''O'' then digits_of ''01234567'' t
           else if x = CHR ''x'' \<or> x = CHR ''X'' then digits_of ''0123456789abcdefABCDEF'' t
           else False)
      | _ \<Rightarrow> False)"

definition StringNumericLiteral :: "string \<Rightarrow> bool" where
  "StringNumericLiteral s =
     (let t = dropWhile StrWhiteSpaceChar (rev (dropWhile StrWhiteSpaceChar (rev s)))
      in t = [] \<or> StrDecimalLiteral t \<or> NonDecimalIntegerLiteral t)"

fun chars_of :: "js_text \<Rightarrow> string option" where
  "chars_of [] = Some []"
| "chars_of (Chars s # ps) = (case chars_of ps of None \<Rightarrow> None | Some r \<Rightarrow> Some (s @ r))"
| "chars_of (NumberToString d # ps) = None"

text \<open>
  \<^verbatim>\<open>StringToNumber\<close>: a text that is not a \<^verbatim>\<open>StringNumericLiteral\<close> is NaN; the value
  of one that is, and of a text with the decimal form of a double in it, stays
  \<open>Parsed\<close>.
\<close>

definition StringToNumber :: "js_text \<Rightarrow> number" where
  "StringToNumber t =
     (case chars_of t of
        None \<Rightarrow> Parsed t
      | Some s \<Rightarrow> if StringNumericLiteral s then Parsed t else Double NaN)"

text \<open>
  \<^verbatim>\<open>Number(v)\<close> is \<^verbatim>\<open>ToNumber(ToPrimitive(v, number))\<close>. On an object or an array,
  \<^verbatim>\<open>ToPrimitive\<close> with hint number tries \<^verbatim>\<open>valueOf\<close> first (skipped, see above) and
  then \<^verbatim>\<open>toString\<close>, so it yields what \<open>ToString\<close> yields, or throws as it does.
\<close>

fun Number :: "js \<Rightarrow> error + number" where
  "Number JSUndefined = Inr (Double NaN)"
| "Number JSNull = Inr (Double (Finite 0))"
| "Number (JSBoolean b) = Inr (Double (Finite (if b then 1 else 0)))"
| "Number (JSNumber d) = Inr (Double d)"
| "Number (JSString s) = Inr (StringToNumber [Chars s])"
| "Number v = (case ToString v of Inl e \<Rightarrow> Inl e | Inr t \<Rightarrow> Inr (StringToNumber t))"

subsection \<open>The collaborators: response, gauges, error log\<close>

text \<open>
  The \<^verbatim>\<open>Response\<close> of the Fetch API, as far as the code reads it. \<^verbatim>\<open>response.ok\<close>
  is true for a status from 200 to 299.
\<close>

record response =
  status :: nat
  statusText :: string

definition ok :: "response \<Rightarrow> bool" where
  "ok r \<longleftrightarrow> 200 \<le> status r \<and> status r \<le> 299"

text \<open>
  The value a catch clause receives. A network failure is a TypeError, a malformed
  body a SyntaxError, an abort without a reason an AbortError: objects with a name and
  a message. An abort with a reason rejects with that reason, which the caller of
  \<^verbatim>\<open>abort\<close> chooses freely: any value, \<^verbatim>\<open>null\<close> included.
\<close>

datatype caught = ErrorObject error | Reason js

text \<open>
  Line 85: \<^verbatim>\<open>(error as Error).message\<close>. The cast is erased when the code runs: the
  property is read from whatever was caught. An error object yields its message;
  \<^verbatim>\<open>null\<close> and \<^verbatim>\<open>undefined\<close> have no properties and the read throws; any other value
  yields its own property \<^verbatim>\<open>message\<close>, or \<^verbatim>\<open>undefined\<close>.
\<close>

fun read_message :: "caught \<Rightarrow> error + js" where
  "read_message (ErrorObject e) = Inr (JSString (message e))"
| "read_message (Reason v) = Get v ''message''"

text \<open>
  What the two awaits of the try block produce: \<^verbatim>\<open>fetch\<close> rejects (network failure,
  or the abort signal passed at line 80 fires); \<^verbatim>\<open>fetch\<close> resolves and
  \<^verbatim>\<open>response.json()\<close> rejects (malformed body, or the abort signal fires while the body
  is read); or both resolve.
\<close>

datatype io =
    FetchRejects caught
  | JsonRejects response caught
  | Resolves response js

text \<open>
  A gauge of the metrics library: the value last set, and how often \<^verbatim>\<open>set\<close> was called
  on it. \<^verbatim>\<open>set\<close> accepts every value of type number, NaN included.
\<close>

record gauge =
  current :: number
  set_calls :: nat

definition gauge_set :: "number \<Rightarrow> gauge \<Rightarrow> gauge" where
  "gauge_set v g = \<lparr>current = v, set_calls = Suc (set_calls g)\<rparr>"

text \<open>The second argument of \<^verbatim>\<open>logError\<close>: the structured context of the entry.\<close>

datatype log_context =
    MessageContext js
  | ResponseContext response
  | DataContext js

text \<open>
  The state the closure writes to: the three gauges captured by \<^verbatim>\<open>positionLoader\<close>
  and the entries passed to \<^verbatim>\<open>logError\<close>, oldest first.
\<close>

record world =
  latitudeMetric :: gauge
  longitudeMetric :: gauge
  altitudeMetric :: gauge
  error_log :: "(string \<times> log_context) list"

definition logError :: "string \<Rightarrow> log_context \<Rightarrow> world \<Rightarrow> world" where
  "logError m c w = w\<lparr>error_log := error_log w @ [(m, c)]\<rparr>"

text \<open>How the promise returned by the async function settles.\<close>

datatype completion = Returned | Threw error

subsection \<open>\<^verbatim>\<open>loadPosition\<close>\<close>

text \<open>
  Line 100: \<^verbatim>\<open>!data || !data.altitude || !data.latitude || !data.longitude\<close>, evaluated
  left to right with short circuit. \<open>Inr True\<close>: the payload is refused.
\<close>

definition unexpected_payload :: "js \<Rightarrow> error + bool" where
  "unexpected_payload data =
     (if \<not> truthy data then Inr True
      else case Get data ''altitude'' of
        Inl e \<Rightarrow> Inl e
      | Inr a \<Rightarrow>
          if \<not> truthy a then Inr True
          else case Get data ''latitude'' of
            Inl e \<Rightarrow> Inl e
          | Inr la \<Rightarrow>
              if \<not> truthy la then Inr True
              else case Get data ''longitude'' of
                Inl e \<Rightarrow> Inl e
              | Inr lo \<Rightarrow> Inr (\<not> truthy lo))"

text \<open>
  Lines 109 to 112: the destructuring of \<^verbatim>\<open>data || {}\<close> reads the three properties,
  then each gauge is set in turn; an exception leaves the function at once, with the
  gauges set so far.
\<close>

definition set_metrics :: "js \<Rightarrow> world \<Rightarrow> completion \<times> world" where
  "set_metrics data w =
     (let source = (if truthy data then data else JSObject []) in
      case Get source ''latitude'' of
        Inl e \<Rightarrow> (Threw e, w)
      | Inr latitude \<Rightarrow>
      case Get source ''longitude'' of
        Inl e \<Rightarrow> (Threw e, w)
      | Inr longitude \<Rightarrow>
      case Get source ''altitude'' of
        Inl e \<Rightarrow> (Threw e, w)
      | Inr altitude \<Rightarrow>
      case Number latitude of
        Inl e \<Rightarrow> (Threw e, w)
      | Inr n1 \<Rightarrow>
      let w1 = w\<lparr>latitudeMetric := gauge_set n1 (latitudeMetric w)\<rparr> in
      case Number longitude of
        Inl e \<Rightarrow> (Threw e, w1)
      | Inr n2 \<Rightarrow>
      let w2 = w1\<lparr>longitudeMetric := gauge_set n2 (longitudeMetric w1)\<rparr> in
      case Number altitude of
        Inl e \<Rightarrow> (Threw e, w2)
      | Inr n3 \<Rightarrow>
      (Returned, w2\<lparr>altitudeMetric := gauge_set n3 (altitudeMetric w2)\<rparr>))"

text \<open>
  Lines 83 to 89, the catch block: the argument of \<^verbatim>\<open>logError\<close> is built first, so an
  exception of the property read leaves the function before anything is logged.
\<close>

definition fetch_failed :: "caught \<Rightarrow> world \<Rightarrow> completion \<times> world" where
  "fetch_failed c w =
     (case read_message c of
        Inl e \<Rightarrow> (Threw e, w)
      | Inr m \<Rightarrow>
          (Returned, logError ''Failed to fetch ISS position data'' (MessageContext m) w))"

definition loadPosition :: "io \<Rightarrow> world \<Rightarrow> completion \<times> world" where
  "loadPosition outcome w =
     (case outcome of
        FetchRejects e \<Rightarrow> fetch_failed e w
      | JsonRejects response e \<Rightarrow> fetch_failed e w
      | Resolves response data \<Rightarrow>
          if \<not> ok response then
            (Returned,
             logError (''Failed to fetch ISS position data: '' @ statusText response)
               (ResponseContext response) w)
          else
            (case unexpected_payload data of
               Inl e \<Rightarrow> (Threw e, w)
             | Inr True \<Rightarrow>
                 (Returned,
                  logError ''Failed to parse ISS position data: Unexpected payload''
                    (DataContext data) w)
             | Inr False \<Rightarrow> set_metrics data w))"

subsection \<open>Vocabulary of the properties\<close>

text \<open>
  The failure paths of a poll: the try block throws, the status is not a success, or
  the condition of line 100 holds.
\<close>

definition failure_path :: "io \<Rightarrow> bool" where
  "failure_path outcome =
     (case outcome of
        FetchRejects e \<Rightarrow> True
      | JsonRejects response e \<Rightarrow> True
      | Resolves response data \<Rightarrow>
          (if ok response then unexpected_payload data = Inr True else True))"

text \<open>The catch block itself throws: the value caught has no property to read.\<close>

definition unreadable :: "io \<Rightarrow> bool" where
  "unreadable outcome =
     (case outcome of
        FetchRejects c \<Rightarrow> (case read_message c of Inl e \<Rightarrow> True | Inr m \<Rightarrow> False)
      | JsonRejects response c \<Rightarrow> (case read_message c of Inl e \<Rightarrow> True | Inr m \<Rightarrow> False)
      | Resolves response data \<Rightarrow> False)"

text \<open>The value of \<^verbatim>\<open>data.k\<close> where the read does not throw.\<close>

definition field :: "js \<Rightarrow> string \<Rightarrow> js" where
  "field data k = (case Get data k of Inl e \<Rightarrow> JSUndefined | Inr v \<Rightarrow> v)"

text \<open>\<^verbatim>\<open>Number(v)\<close> yields a number, rather than throwing.\<close>

definition convertible :: "js \<Rightarrow> bool" where
  "convertible v = (case Number v of Inl e \<Rightarrow> False | Inr n \<Rightarrow> True)"

definition fields_convertible :: "io \<Rightarrow> bool" where
  "fields_convertible outcome =
     (case outcome of
        Resolves response data \<Rightarrow>
          convertible (field data ''latitude'') \<and>
          convertible (field data ''longitude'') \<and>
          convertible (field data ''altitude'')
      | _ \<Rightarrow> False)"

text \<open>
  A poll publishes a reading when it gets past the status check and the validation
  and \<^verbatim>\<open>Number\<close> converts the three fields: the reading is then the three numbers.
\<close>

definition published :: "io \<Rightarrow> bool" where
  "published outcome \<longleftrightarrow> \<not> failure_path outcome \<and> fields_convertible outcome"

definition to_number :: "js \<Rightarrow> number" where
  "to_number v = (case Number v of Inl e \<Rightarrow> Double NaN | Inr n \<Rightarrow> n)"

definition reading :: "io \<Rightarrow> number \<times> number \<times> number" where
  "reading outcome =
     (case outcome of
        Resolves response data \<Rightarrow>
          (to_number (field data ''latitude''), to_number (field data ''longitude''),
           to_number (field data ''altitude''))
      | _ \<Rightarrow> (Double NaN, Double NaN, Double NaN))"

text \<open>What the three gauges show.\<close>

definition gauge_values :: "world \<Rightarrow> number \<times> number \<times> number" where
  "gauge_values w =
     (current (latitudeMetric w), current (longitudeMetric w), current (altitudeMetric w))"

text \<open>
  Successive polls on the same three gauges: each starts in the state the one before
  left, whether that one returned or threw.
\<close>

fun polls :: "io list \<Rightarrow> world \<Rightarrow> world" where
  "polls [] w = w"
| "polls (outcome # rest) w = polls rest (snd (loadPosition outcome w))"

text \<open>The reading of the last poll of the list that published one; \<open>v\<close> if none did.\<close>

fun latest_reading :: "number \<times> number \<times> number \<Rightarrow> io list \<Rightarrow> number \<times> number \<times> number" where
  "latest_reading v [] = v"
| "latest_reading v (outcome # rest) =
     latest_reading (if published outcome then reading outcome else v) rest"

text \<open>
  The values \<^verbatim>\<open>Number\<close> throws on, described directly: an object with an own property
  \<^verbatim>\<open>toString\<close>, and an array that holds such a value.
\<close>

fun shadows_toString :: "js \<Rightarrow> bool" where
  "shadows_toString (JSObject ps) = (own_property ps ''toString'' \<noteq> None)"
| "shadows_toString (JSArray xs) = (\<exists>x \<in> set xs. shadows_toString x)"
| "shadows_toString v = False"

subsection \<open>Sample inputs\<close>

text \<open>A gauge that was never set reads 0.\<close>

definition fresh_gauge :: gauge where
  "fresh_gauge = \<lparr>current = Double (Finite 0), set_calls = 0\<rparr>"

definition initial_world :: world where
  "initial_world =
     \<lparr>latitudeMetric = fresh_gauge, longitudeMetric = fresh_gauge,
      altitudeMetric = fresh_gauge, error_log = []\<rparr>"

definition response_200 :: response where
  "response_200 = \<lparr>status = 200, statusText = ''OK''\<rparr>"

definition response_500 :: response where
  "response_500 = \<lparr>status = 500, statusText = ''Internal Server Error''\<rparr>"

definition position :: "js \<Rightarrow> js \<Rightarrow> js \<Rightarrow> js" where
  "position la lo al = JSObject [(''latitude'', la), (''longitude'', lo), (''altitude'', al)]"

text \<open>\<^verbatim>\<open>{latitude: 51.5, longitude: -0.1, altitude: 408.2}\<close>\<close>

definition reading_london :: js where
  "reading_london =
     position (JSNumber (Finite (103 / 2))) (JSNumber (Finite (- 1 / 10)))
       (JSNumber (Finite (2041 / 5)))"

text \<open>\<^verbatim>\<open>{latitude: 0, longitude: 12.3, altitude: 400}\<close>\<close>

definition reading_equator :: js where
  "reading_equator =
     position (JSNumber (Finite 0)) (JSNumber (Finite (123 / 10))) (JSNumber (Finite 400))"

text \<open>\<^verbatim>\<open>{"toString": null}\<close>: a truthy value that \<^verbatim>\<open>Number\<close> cannot convert.\<close>

definition opaque :: js where
  "opaque = JSObject [(''toString'', JSNull)]"

definition aborted :: error where
  "aborted = Error ''AbortError'' ''This operation was aborted''"

definition malformed :: error where
  "malformed = Error ''SyntaxError'' ''Unexpected token < in JSON at position 0''"

subsection \<open>The scheduler\<close>

text \<open>
  Modelled from the spec: one invocation of the scheduled task, as the scheduler of
  \<^verbatim>\<open>utilities.js\<close> (not among the sources) runs it: the time it started, the time it
  settled (by returning or by throwing), and the time the interval timer for its
  successor was armed. Time is counted in milliseconds.
\<close>

record invocation =
  started :: nat
  settled :: nat
  timer_armed :: nat

text \<open>
  Modelled from the spec: the function \<^verbatim>\<open>schedule(task, intervalMs, onError)\<close> of
  \<^verbatim>\<open>utilities.js\<close>, which the sources import and call (line 39) but do not contain.
  The specification says: the task runs immediately or on a fixed cadence of
  \<^verbatim>\<open>intervalMs\<close> milliseconds, repeatedly; each invocation is awaited before the
  interval timer for the next invocation is armed; an error that the task raises goes
  to \<^verbatim>\<open>onError\<close> and the schedule continues.

  The environment is the list of the durations of the successive invocations (how long
  each takes to settle); \<open>now\<close> is the time of the first invocation. The timer for the
  successor is armed when the invocation settles, and the successor starts when the
  timer fires, \<open>intervalMs\<close> later. The schedule runs for as long as the list goes on.
\<close>

fun schedule :: "nat \<Rightarrow> nat \<Rightarrow> nat list \<Rightarrow> invocation list" where
  "schedule intervalMs now [] = []"
| "schedule intervalMs now (d # ds) =
     \<lparr>started = now, settled = now + d, timer_armed = now + d\<rparr>
       # schedule intervalMs (now + d + intervalMs) ds"

section \<open>Properties\<close>

subsection \<open>Auxiliary facts\<close>

lemma Get_truthy: "truthy data \<Longrightarrow> Get data k = Inr (field data k)"
  by (cases data) (simp_all add: field_def)

lemma field_truthy: "truthy (field data k) \<Longrightarrow> truthy data"
  by (cases data) (simp_all add: field_def)

lemma Get_field: "Get data k = Inr v \<Longrightarrow> field data k = v"
  by (simp add: field_def)

text \<open>The condition of line 100 never throws: the first disjunct guards the reads.\<close>

lemma unexpected_payload_eq:
  "unexpected_payload data =
     Inr (\<not> (truthy data \<and> truthy (field data ''altitude'') \<and>
              truthy (field data ''latitude'') \<and> truthy (field data ''longitude'')))"
  by (cases "truthy data") (simp_all add: unexpected_payload_def Get_truthy)

lemma set_metrics_converted:
  assumes "truthy data"
    and "Number (field data ''latitude'') = Inr a"
    and "Number (field data ''longitude'') = Inr b"
    and "Number (field data ''altitude'') = Inr c"
  shows "set_metrics data w =
     (Returned,
      w\<lparr>latitudeMetric := gauge_set a (latitudeMetric w),
        longitudeMetric := gauge_set b (longitudeMetric w),
        altitudeMetric := gauge_set c (altitudeMetric w)\<rparr>)"
  using assms by (simp add: set_metrics_def Get_truthy)

lemma set_metrics_returned:
  assumes "truthy data"
  shows "fst (set_metrics data w) = Returned \<longleftrightarrow>
     convertible (field data ''latitude'') \<and>
     convertible (field data ''longitude'') \<and>
     convertible (field data ''altitude'')"
  using assms
  by (cases "Number (field data ''latitude'')"; cases "Number (field data ''longitude'')";
      cases "Number (field data ''altitude'')")
    (simp_all add: set_metrics_def Get_truthy convertible_def)

lemma loadPosition_validated:
  assumes "ok response" and "unexpected_payload data = Inr False"
  shows "loadPosition (Resolves response data) w = set_metrics data w"
  using assms by (simp add: loadPosition_def)

lemma fetch_failed_cases:
  "(\<exists>e. read_message c = Inl e \<and> fetch_failed c w = (Threw e, w)) \<or>
   (\<exists>m. read_message c = Inr m \<and>
      fetch_failed c w =
        (Returned, logError ''Failed to fetch ISS position data'' (MessageContext m) w))"
  by (cases "read_message c") (simp_all add: fetch_failed_def)

lemma loadPosition_failure:
  assumes "failure_path outcome" and "\<not> unreadable outcome"
  shows "\<exists>m c. loadPosition outcome w = (Returned, logError m c w)"
proof (cases outcome)
  case (FetchRejects c)
  with assms(2) show ?thesis
    using fetch_failed_cases [of c w] by (auto simp add: loadPosition_def unreadable_def)
next
  case (JsonRejects r c)
  with assms(2) show ?thesis
    using fetch_failed_cases [of c w] by (auto simp add: loadPosition_def unreadable_def)
next
  case (Resolves r d)
  show ?thesis
  proof (cases "ok r")
    case True
    with assms Resolves show ?thesis
      by (simp add: loadPosition_def failure_path_def) blast
  next
    case False
    with Resolves show ?thesis
      by (simp add: loadPosition_def) blast
  qed
qed

lemma loadPosition_unreadable:
  assumes "unreadable outcome"
  shows "\<exists>e. loadPosition outcome w = (Threw e, w)"
proof (cases outcome)
  case (FetchRejects c)
  with assms show ?thesis
    using fetch_failed_cases [of c w] by (auto simp add: loadPosition_def unreadable_def)
next
  case (JsonRejects r c)
  with assms show ?thesis
    using fetch_failed_cases [of c w] by (auto simp add: loadPosition_def unreadable_def)
next
  case (Resolves r d)
  with assms show ?thesis by (simp add: unreadable_def)
qed

lemma failure_keeps_gauges:
  assumes "failure_path outcome"
  shows "latitudeMetric (snd (loadPosition outcome w)) = latitudeMetric w \<and>
         longitudeMetric (snd (loadPosition outcome w)) = longitudeMetric w \<and>
         altitudeMetric (snd (loadPosition outcome w)) = altitudeMetric w"
proof (cases "unreadable outcome")
  case True
  then obtain e where "loadPosition outcome w = (Threw e, w)"
    using loadPosition_unreadable by blast
  then show ?thesis by simp
next
  case False
  with assms obtain m c where "loadPosition outcome w = (Returned, logError m c w)"
    using loadPosition_failure by blast
  then show ?thesis by (simp add: logError_def)
qed

lemma published_sets_reading:
  assumes "published outcome"
  shows "gauge_values (snd (loadPosition outcome w)) = reading outcome"
proof -
  from assms obtain r d where o: "outcome = Resolves r d" and k: "ok r"
    and v: "unexpected_payload d = Inr False" and c: "fields_convertible (Resolves r d)"
    by (cases outcome)
      (auto simp add: published_def failure_path_def fields_convertible_def
        unexpected_payload_eq split: if_splits)
  from v have t: "truthy d" by (simp add: unexpected_payload_eq)
  from c obtain a b c' where n: "Number (field d ''latitude'') = Inr a"
    "Number (field d ''longitude'') = Inr b" "Number (field d ''altitude'') = Inr c'"
    by (auto simp add: fields_convertible_def convertible_def split: sum.splits)
  have "loadPosition outcome w = set_metrics d w"
    unfolding o using k v by (rule loadPosition_validated)
  also have "\<dots> =
     (Returned,
      w\<lparr>latitudeMetric := gauge_set a (latitudeMetric w),
        longitudeMetric := gauge_set b (longitudeMetric w),
        altitudeMetric := gauge_set c' (altitudeMetric w)\<rparr>)"
    using t n by (rule set_metrics_converted)
  finally show ?thesis
    using n by (simp add: gauge_values_def gauge_set_def reading_def to_number_def o)
qed

lemma polls_latest_reading:
  "\<forall>outcome \<in> set os. failure_path outcome \<or> published outcome \<Longrightarrow>
   gauge_values (polls os w) = latest_reading (gauge_values w) os"
proof (induction os arbitrary: w)
  case Nil
  then show ?case by simp
next
  case (Cons outcome rest)
  have step: "gauge_values (snd (loadPosition outcome w)) =
      (if published outcome then reading outcome else gauge_values w)"
  proof (cases "published outcome")
    case True
    then show ?thesis by (simp add: published_sets_reading)
  next
    case False
    with Cons.prems have "failure_path outcome" by simp
    then show ?thesis
      using False failure_keeps_gauges [of outcome w] by (simp add: gauge_values_def)
  qed
  from Cons.prems have "\<forall>outcome \<in> set rest. failure_path outcome \<or> published outcome"
    by simp
  then have "gauge_values (polls rest (snd (loadPosition outcome w))) =
      latest_reading (gauge_values (snd (loadPosition outcome w))) rest"
    by (rule Cons.IH)
  then show ?case by (simp add: step)
qed

text \<open>Which values \<^verbatim>\<open>Number\<close> throws on.\<close>

lemma ToString_throws:
  "(\<exists>e. ToString v = Inl e) \<longleftrightarrow> shadows_toString v"
  "(\<exists>e. join xs = Inl e) \<longleftrightarrow> (\<exists>x \<in> set xs. shadows_toString x)"
proof (induction v and xs rule: ToString_join.induct)
  case (9 x xs)
  show ?case
  proof (cases "x = JSUndefined \<or> x = JSNull")
    case True
    with 9 show ?thesis by (auto split: sum.splits)
  next
    case False
    with 9 show ?thesis by (cases "ToString x"; cases "join xs") auto
  qed
qed simp_all

lemma convertible_iff: "convertible v \<longleftrightarrow> \<not> shadows_toString v"
proof (cases v)
  case (JSArray xs)
  then show ?thesis
    using ToString_throws(1) [of v] by (cases "join xs") (auto simp add: convertible_def)
next
  case (JSObject ps)
  then show ?thesis by (simp add: convertible_def)
qed (simp_all add: convertible_def)

lemma Number_non_numeric_string:
  "\<not> StringNumericLiteral s \<Longrightarrow> Number (JSString s) = Inr (Double NaN)"
  by (simp add: StringToNumber_def)

text \<open>The schedule: one invocation per duration, each starting no earlier than \<open>now\<close>.\<close>

lemma schedule_length: "length (schedule intervalMs now ds) = length ds"
  by (induction ds arbitrary: now) simp_all

lemma schedule_not_before:
  "x \<in> set (schedule intervalMs now ds) \<Longrightarrow> now \<le> started x"
proof (induction ds arbitrary: now)
  case Nil
  then show ?case by simp
next
  case (Cons d ds)
  from Cons.prems consider "x = \<lparr>started = now, settled = now + d, timer_armed = now + d\<rparr>"
    | "x \<in> set (schedule intervalMs (now + d + intervalMs) ds)"
    by auto
  then show ?case
  proof cases
    case 1
    then show ?thesis by simp
  next
    case 2
    then have "now + d + intervalMs \<le> started x" by (rule Cons.IH)
    then show ?thesis by simp
  qed
qed

lemma schedule_no_overlap:
  "i < j \<Longrightarrow> j < length ds \<Longrightarrow>
   settled (schedule intervalMs now ds ! i) \<le> started (schedule intervalMs now ds ! j)"
proof (induction ds arbitrary: now i j)
  case Nil
  then show ?case by simp
next
  case (Cons d ds)
  from Cons.prems obtain j' where j: "j = Suc j'" and j': "j' < length ds"
    by (cases j) auto
  show ?case
  proof (cases i)
    case 0
    have "schedule intervalMs (now + d + intervalMs) ds ! j'
        \<in> set (schedule intervalMs (now + d + intervalMs) ds)"
      using j' by (simp add: schedule_length)
    then have "now + d + intervalMs \<le> started (schedule intervalMs (now + d + intervalMs) ds ! j')"
      by (rule schedule_not_before)
    then show ?thesis by (simp add: 0 j)
  next
    case (Suc i')
    with Cons.prems j have "i' < j'" by simp
    then show ?thesis using Cons.IH [OF _ j'] by (simp add: Suc j)
  qed
qed

lemma schedule_next:
  "Suc i < length ds \<Longrightarrow>
   timer_armed (schedule intervalMs now ds ! i) = settled (schedule intervalMs now ds ! i) \<and>
   started (schedule intervalMs now ds ! i) \<le> settled (schedule intervalMs now ds ! i) \<and>
   started (schedule intervalMs now ds ! Suc i) =
     timer_armed (schedule intervalMs now ds ! i) + intervalMs"
proof (induction ds arbitrary: now i)
  case Nil
  then show ?case by simp
next
  case (Cons d ds)
  show ?case
  proof (cases i)
    case 0
    with Cons.prems show ?thesis by (cases ds) simp_all
  next
    case (Suc i')
    with Cons.prems have "Suc i' < length ds" by simp
    then show ?thesis using Cons.IH by (simp add: Suc)
  qed
qed

text \<open>Unfolding sets for evaluating a poll on a sample input.\<close>

lemmas sample_defs =
  initial_world_def fresh_gauge_def response_200_def response_500_def position_def
  reading_london_def reading_equator_def opaque_def aborted_def malformed_def

lemmas run_defs =
  loadPosition_def fetch_failed_def logError_def ok_def unexpected_payload_def
  set_metrics_def own_property_def gauge_set_def cannot_convert_def TypeError_def
  StringToNumber_def

lemma london_poll:
  "loadPosition (Resolves response_200 reading_london) initial_world =
     (Returned,
      \<lparr>latitudeMetric = \<lparr>current = Double (Finite (103 / 2)), set_calls = 1\<rparr>,
       longitudeMetric = \<lparr>current = Double (Finite (- 1 / 10)), set_calls = 1\<rparr>,
       altitudeMetric = \<lparr>current = Double (Finite (2041 / 5)), set_calls = 1\<rparr>,
       error_log = []\<rparr>)"
  by (simp add: run_defs sample_defs)

subsection \<open>Failed polls leave the gauges alone\<close>

text \<open>
  C1, as the code has it: on every failure path of a poll (the fetch or the body parse
  rejects, the status is not a success, or the payload fails validation) none of the
  three gauges is touched: each keeps its value, and the number of \<^verbatim>\<open>set\<close> calls on
  it does not change; the poll returns normally on each of these paths unless the
  catch block cannot read the message of what it caught. Over any sequence of polls
  each of which takes a failure path or publishes its reading, the gauges show the
  reading of the last poll that published one, or what they showed before if none
  did.
\<close>

theorem gauges_show_latest_published_reading:
  "(failure_path outcome \<longrightarrow>
      latitudeMetric (snd (loadPosition outcome w)) = latitudeMetric w \<and>
      longitudeMetric (snd (loadPosition outcome w)) = longitudeMetric w \<and>
      altitudeMetric (snd (loadPosition outcome w)) = altitudeMetric w) \<and>
   (failure_path outcome \<and> \<not> unreadable outcome \<longrightarrow>
      fst (loadPosition outcome w) = Returned) \<and>
   ((\<forall>p \<in> set os. failure_path p \<or> published p) \<longrightarrow>
      gauge_values (polls os w) = latest_reading (gauge_values w) os)"
proof -
  have a: "failure_path outcome \<longrightarrow>
      latitudeMetric (snd (loadPosition outcome w)) = latitudeMetric w \<and>
      longitudeMetric (snd (loadPosition outcome w)) = longitudeMetric w \<and>
      altitudeMetric (snd (loadPosition outcome w)) = altitudeMetric w"
    using failure_keeps_gauges by blast
  have b: "failure_path outcome \<and> \<not> unreadable outcome \<longrightarrow>
      fst (loadPosition outcome w) = Returned"
  proof
    assume "failure_path outcome \<and> \<not> unreadable outcome"
    then obtain m c where "loadPosition outcome w = (Returned, logError m c w)"
      using loadPosition_failure by blast
    then show "fst (loadPosition outcome w) = Returned" by simp
  qed
  have c: "(\<forall>p \<in> set os. failure_path p \<or> published p) \<longrightarrow>
      gauge_values (polls os w) = latest_reading (gauge_values w) os"
    using polls_latest_reading by blast
  show ?thesis using a b c by blast
qed

text \<open>
  After the reading 51.5, -0.1, 408.2 was published, a poll answered with status 500
  and a poll whose fetch was aborted leave the three gauges at those values, each set
  once.
\<close>

theorem gauges_show_latest_published_reading_witness:
  "published (Resolves response_200 reading_london) \<and>
   failure_path (Resolves response_500 reading_equator) \<and>
   failure_path (FetchRejects (ErrorObject aborted)) \<and>
   \<not> unreadable (FetchRejects (ErrorObject aborted)) \<and>
   gauge_values
     (polls [Resolves response_200 reading_london, Resolves response_500 reading_equator,
        FetchRejects (ErrorObject aborted)] initial_world) =
     (Double (Finite (103 / 2)), Double (Finite (- 1 / 10)), Double (Finite (2041 / 5))) \<and>
   fst (loadPosition (FetchRejects (ErrorObject aborted))
     (snd (loadPosition (Resolves response_200 reading_london) initial_world))) = Returned \<and>
   latitudeMetric (snd (loadPosition (FetchRejects (ErrorObject aborted))
     (snd (loadPosition (Resolves response_200 reading_london) initial_world)))) =
     \<lparr>current = Double (Finite (103 / 2)), set_calls = 1\<rparr> \<and>
   longitudeMetric (snd (loadPosition (FetchRejects (ErrorObject aborted))
     (snd (loadPosition (Resolves response_200 reading_london) initial_world)))) =
     \<lparr>current = Double (Finite (- 1 / 10)), set_calls = 1\<rparr> \<and>
   altitudeMetric (snd (loadPosition (FetchRejects (ErrorObject aborted))
     (snd (loadPosition (Resolves response_200 reading_london) initial_world)))) =
     \<lparr>current = Double (Finite (2041 / 5)), set_calls = 1\<rparr>"
proof -
  let ?os = "[Resolves response_200 reading_london, Resolves response_500 reading_equator,
        FetchRejects (ErrorObject aborted)]"
  let ?w = "snd (loadPosition (Resolves response_200 reading_london) initial_world)"
  have p: "published (Resolves response_200 reading_london)"
    by (simp add: published_def failure_path_def fields_convertible_def convertible_def
        field_def run_defs sample_defs)
  have f: "failure_path (Resolves response_500 reading_equator)"
    by (simp add: failure_path_def ok_def response_500_def)
  have g: "failure_path (FetchRejects (ErrorObject aborted))"
    by (simp add: failure_path_def)
  have u: "\<not> unreadable (FetchRejects (ErrorObject aborted))"
    by (simp add: unreadable_def)
  have a: "\<forall>outcome \<in> set ?os. failure_path outcome \<or> published outcome"
    using p f g by simp
  have np: "\<not> published (Resolves response_500 reading_equator)"
    "\<not> published (FetchRejects (ErrorObject aborted))"
    using f g by (simp_all add: published_def)
  have r: "reading (Resolves response_200 reading_london) =
     (Double (Finite (103 / 2)), Double (Finite (- 1 / 10)), Double (Finite (2041 / 5)))"
    by (simp add: reading_def to_number_def field_def own_property_def sample_defs)
  note t = gauges_show_latest_published_reading [of "FetchRejects (ErrorObject aborted)" ?w]
  have "gauge_values (polls ?os initial_world) =
      latest_reading (gauge_values initial_world) ?os"
    using a gauges_show_latest_published_reading [of _ initial_world ?os] by blast
  then have v: "gauge_values (polls ?os initial_world) =
     (Double (Finite (103 / 2)), Double (Finite (- 1 / 10)), Double (Finite (2041 / 5)))"
    using p np r by simp
  have k: "latitudeMetric (snd (loadPosition (FetchRejects (ErrorObject aborted)) ?w)) =
      latitudeMetric ?w \<and>
    longitudeMetric (snd (loadPosition (FetchRejects (ErrorObject aborted)) ?w)) =
      longitudeMetric ?w \<and>
    altitudeMetric (snd (loadPosition (FetchRejects (ErrorObject aborted)) ?w)) =
      altitudeMetric ?w"
    using t g by blast
  have n: "fst (loadPosition (FetchRejects (ErrorObject aborted)) ?w) = Returned"
    using t g u by blast
  show ?thesis
    using p f g u v n k by (simp add: london_poll)
qed

text \<open>
  The gauges can show a blend of two readings: after the reading 51.5, -0.1, 408.2,
  the payload \<^verbatim>\<open>{latitude: 7, longitude: 8, altitude: {"toString": null}}\<close> with
  status 200 passes validation, sets two gauges and throws at the third, which still
  shows 408.2.
\<close>

theorem gauges_blend_two_readings:
  "gauge_values
     (polls [Resolves response_200 reading_london,
        Resolves response_200 (position (JSNumber (Finite 7)) (JSNumber (Finite 8)) opaque)]
       initial_world) =
     (Double (Finite 7), Double (Finite 8), Double (Finite (2041 / 5))) \<and>
   fst (loadPosition
     (Resolves response_200 (position (JSNumber (Finite 7)) (JSNumber (Finite 8)) opaque))
     (snd (loadPosition (Resolves response_200 reading_london) initial_world))) =
     Threw cannot_convert"
  by (simp add: gauge_values_def run_defs sample_defs)

subsection \<open>The catch branch\<close>

text \<open>
  C5, as the code has it: when the fetch rejects (network failure, or the abort signal)
  or the body parse rejects (malformed body, or the abort signal) and the message of
  the value caught can be read, one error is logged that carries that message, and the
  call returns; every error object is such a value, and its message is the one logged.
  A rejection of the body parse takes the same path as a rejection of the fetch. No
  gauge is touched, whatever was caught.
\<close>

theorem transport_and_parse_failures:
  "(read_message c = Inr m \<longrightarrow>
      loadPosition (FetchRejects c) w =
        (Returned, logError ''Failed to fetch ISS position data'' (MessageContext m) w) \<and>
      error_log (snd (loadPosition (FetchRejects c) w)) =
        error_log w @ [(''Failed to fetch ISS position data'', MessageContext m)]) \<and>
   loadPosition (FetchRejects (ErrorObject e)) w =
     (Returned,
      logError ''Failed to fetch ISS position data'' (MessageContext (JSString (message e))) w) \<and>
   loadPosition (JsonRejects response c) w = loadPosition (FetchRejects c) w \<and>
   latitudeMetric (snd (loadPosition (FetchRejects c) w)) = latitudeMetric w \<and>
   longitudeMetric (snd (loadPosition (FetchRejects c) w)) = longitudeMetric w \<and>
   altitudeMetric (snd (loadPosition (FetchRejects c) w)) = altitudeMetric w"
proof -
  have "failure_path (FetchRejects c)" by (simp add: failure_path_def)
  then have "latitudeMetric (snd (loadPosition (FetchRejects c) w)) = latitudeMetric w \<and>
      longitudeMetric (snd (loadPosition (FetchRejects c) w)) = longitudeMetric w \<and>
      altitudeMetric (snd (loadPosition (FetchRejects c) w)) = altitudeMetric w"
    by (rule failure_keeps_gauges)
  then show ?thesis by (simp add: loadPosition_def fetch_failed_def logError_def)
qed

theorem transport_and_parse_failures_witness:
  "read_message (ErrorObject aborted) = Inr (JSString ''This operation was aborted'') \<and>
   error_log (snd (loadPosition (FetchRejects (ErrorObject aborted)) initial_world)) =
     [(''Failed to fetch ISS position data'',
       MessageContext (JSString ''This operation was aborted''))] \<and>
   error_log (snd (loadPosition (JsonRejects response_200 (ErrorObject malformed))
     initial_world)) =
     [(''Failed to fetch ISS position data'',
       MessageContext (JSString ''Unexpected token < in JSON at position 0''))] \<and>
   latitudeMetric (snd (loadPosition (JsonRejects response_200 (ErrorObject malformed))
     initial_world)) = fresh_gauge"
proof -
  have m: "read_message (ErrorObject aborted) = Inr (JSString ''This operation was aborted'')"
    by (simp add: aborted_def)
  have a: "error_log (snd (loadPosition (FetchRejects (ErrorObject aborted)) initial_world)) =
     error_log initial_world @
       [(''Failed to fetch ISS position data'',
         MessageContext (JSString ''This operation was aborted''))]"
    using m transport_and_parse_failures
      [of "ErrorObject aborted" "JSString ''This operation was aborted''" initial_world aborted
        response_200]
    by blast
  have b: "loadPosition (JsonRejects response_200 (ErrorObject malformed)) initial_world =
     (Returned,
      logError ''Failed to fetch ISS position data'' (MessageContext (JSString (message malformed)))
        initial_world)"
    using transport_and_parse_failures
      [of "ErrorObject malformed" "JSString (message malformed)" initial_world malformed
        response_200]
    by simp
  show ?thesis
    using m unfolding a b by (simp add: logError_def malformed_def initial_world_def)
qed

text \<open>
  Not every rejection is logged: a fetch aborted with the reason \<^verbatim>\<open>null\<close> rejects with
  \<^verbatim>\<open>null\<close>, reading its message throws inside the catch block, nothing is logged and the
  call does not return.
\<close>

theorem null_abort_reason_escapes_catch:
  "loadPosition (FetchRejects (Reason JSNull)) initial_world =
     (Threw (TypeError ''Cannot read properties of null (reading message)''), initial_world) \<and>
   error_log (snd (loadPosition (FetchRejects (Reason JSNull)) initial_world)) = []"
  by (simp add: loadPosition_def fetch_failed_def initial_world_def)

subsection \<open>The status check\<close>

text \<open>
  C6: when the fetch resolves and the body parses but the status is not a success, one
  error is logged whose message ends in the status text and whose context is the
  response, no gauge is touched, and the call returns. The payload plays no part.
\<close>

theorem bad_status_is_logged:
  assumes "\<not> ok response"
  shows "loadPosition (Resolves response data) w =
     (Returned,
      logError (''Failed to fetch ISS position data: '' @ statusText response)
        (ResponseContext response) w) \<and>
   latitudeMetric (snd (loadPosition (Resolves response data) w)) = latitudeMetric w \<and>
   longitudeMetric (snd (loadPosition (Resolves response data) w)) = longitudeMetric w \<and>
   altitudeMetric (snd (loadPosition (Resolves response data) w)) = altitudeMetric w \<and>
   error_log (snd (loadPosition (Resolves response data) w)) =
     error_log w @
       [(''Failed to fetch ISS position data: '' @ statusText response, ResponseContext response)]"
  using assms by (simp add: loadPosition_def logError_def)

theorem bad_status_is_logged_witness:
  "\<not> ok response_500 \<and>
   loadPosition (Resolves response_500 reading_london) initial_world =
     (Returned,
      initial_world\<lparr>error_log :=
        [(''Failed to fetch ISS position data: Internal Server Error'',
          ResponseContext response_500)]\<rparr>)"
proof -
  have n: "\<not> ok response_500" by (simp add: ok_def response_500_def)
  show ?thesis
    using n bad_status_is_logged [OF n, of reading_london initial_world]
    by (simp add: logError_def initial_world_def response_500_def)
qed

text \<open>
  C7: the status is looked at only after the body has parsed. When the body parse
  rejects, the poll leaves through the catch branch, whatever the status of the
  response: the entry logged carries the message of the error, and is not the entry of
  the status check. Conversely, a poll that logs the entry of the status check is one
  whose body parsed and whose status is not a success.
\<close>

theorem parse_failure_precedes_status_check:
  "loadPosition (JsonRejects response (ErrorObject e)) w =
     (Returned,
      logError ''Failed to fetch ISS position data'' (MessageContext (JSString (message e))) w) \<and>
   loadPosition (JsonRejects response (ErrorObject e)) w \<noteq>
     (Returned,
      logError (''Failed to fetch ISS position data: '' @ statusText response)
        (ResponseContext response) w) \<and>
   loadPosition (JsonRejects response c) w = loadPosition (FetchRejects c) w \<and>
   (error_log (snd (loadPosition outcome w)) = error_log w @ [(m, ResponseContext r)] \<longrightarrow>
      (\<exists>data. outcome = Resolves r data \<and> \<not> ok r))"
proof (intro conjI impI)
  show a: "loadPosition (JsonRejects response (ErrorObject e)) w =
     (Returned,
      logError ''Failed to fetch ISS position data'' (MessageContext (JSString (message e))) w)"
    by (simp add: loadPosition_def fetch_failed_def)
  have "error_log
      (logError ''Failed to fetch ISS position data'' (MessageContext (JSString (message e))) w)
      \<noteq> error_log (logError (''Failed to fetch ISS position data: '' @ statusText response)
        (ResponseContext response) w)"
    by (simp add: logError_def)
  then show "loadPosition (JsonRejects response (ErrorObject e)) w \<noteq>
     (Returned,
      logError (''Failed to fetch ISS position data: '' @ statusText response)
        (ResponseContext response) w)"
    unfolding a by auto
next
  show "loadPosition (JsonRejects response c) w = loadPosition (FetchRejects c) w"
    by (simp add: loadPosition_def)
next
  assume l: "error_log (snd (loadPosition outcome w)) = error_log w @ [(m, ResponseContext r)]"
  show "\<exists>data. outcome = Resolves r data \<and> \<not> ok r"
  proof (cases outcome)
    case (FetchRejects c')
    with l show ?thesis
      using fetch_failed_cases [of c' w] by (auto simp add: loadPosition_def logError_def)
  next
    case (JsonRejects r' c')
    with l show ?thesis
      using fetch_failed_cases [of c' w] by (auto simp add: loadPosition_def logError_def)
  next
    case (Resolves r' d)
    show ?thesis
    proof (cases "ok r'")
      case False
      with l Resolves show ?thesis by (simp add: loadPosition_def logError_def)
    next
      case True
      show ?thesis
      proof (cases "unexpected_payload d = Inr True")
        case True
        with l Resolves \<open>ok r'\<close> show ?thesis by (simp add: loadPosition_def logError_def)
      next
        case False
        then have v: "unexpected_payload d = Inr False" by (simp add: unexpected_payload_eq)
        have "error_log (snd (set_metrics d w)) = error_log w"
          by (simp add: set_metrics_def Let_def split: sum.splits)
        with l Resolves \<open>ok r'\<close> v show ?thesis by (simp add: loadPosition_validated)
      qed
    qed
  qed
qed

theorem parse_failure_precedes_status_check_witness:
  "loadPosition (JsonRejects response_500 (ErrorObject malformed)) initial_world =
     (Returned,
      initial_world\<lparr>error_log :=
        [(''Failed to fetch ISS position data'',
          MessageContext (JSString ''Unexpected token < in JSON at position 0''))]\<rparr>) \<and>
   error_log (snd (loadPosition (Resolves response_500 reading_london) initial_world)) =
     error_log initial_world @
       [(''Failed to fetch ISS position data: Internal Server Error'',
         ResponseContext response_500)] \<and>
   (\<exists>data. Resolves response_500 reading_london = Resolves response_500 data \<and>
      \<not> ok response_500)"
proof -
  note t = parse_failure_precedes_status_check
    [of response_500 malformed initial_world "ErrorObject malformed"
      "Resolves response_500 reading_london"
      "''Failed to fetch ISS position data: Internal Server Error''" response_500]
  have l: "error_log (snd (loadPosition (Resolves response_500 reading_london) initial_world)) =
     error_log initial_world @
       [(''Failed to fetch ISS position data: Internal Server Error'',
         ResponseContext response_500)]"
    by (simp add: loadPosition_def ok_def response_500_def logError_def)
  have a: "loadPosition (JsonRejects response_500 (ErrorObject malformed)) initial_world =
     (Returned,
      logError ''Failed to fetch ISS position data''
        (MessageContext (JSString (message malformed))) initial_world)"
    using t by blast
  have c: "\<exists>data. Resolves response_500 reading_london = Resolves response_500 data \<and>
      \<not> ok response_500"
    using t l by blast
  show ?thesis
    using l c unfolding a by (simp add: logError_def malformed_def initial_world_def)
qed

subsection \<open>When a poll throws\<close>

text \<open>
  C2, as the code has it: \<open>loadPosition\<close> returns normally, with one entry added to
  the error log, on every failure path (the fetch or the body parse rejects or is
  cancelled, the status is not a success, the payload fails validation) on which the
  catch block can read the message of what it caught, and it returns normally on every
  payload that passes validation and whose three fields \<^verbatim>\<open>Number\<close> converts. It throws
  in the two remaining cases. One: the value caught is \<^verbatim>\<open>null\<close> or \<^verbatim>\<open>undefined\<close>. Two:
  a payload passes validation and \<^verbatim>\<open>Number\<close> throws on one of its fields, which happens
  exactly when the field is an object with an own property \<^verbatim>\<open>toString\<close> or an array that
  holds one. Neither exception is caught in \<open>loadPosition\<close>; both reach the \<^verbatim>\<open>onError\<close>
  handler passed to the scheduler at line 42.
\<close>

theorem poll_returns_unless_coercion_throws:
  "(fst (loadPosition outcome w) = Returned \<longleftrightarrow>
      failure_path outcome \<and> \<not> unreadable outcome \<or> fields_convertible outcome) \<and>
   (failure_path outcome \<and> \<not> unreadable outcome \<longrightarrow>
      (\<exists>m c. loadPosition outcome w = (Returned, logError m c w))) \<and>
   (unreadable outcome \<longleftrightarrow>
      outcome = FetchRejects (Reason JSNull) \<or> outcome = FetchRejects (Reason JSUndefined) \<or>
      (\<exists>response. outcome = JsonRejects response (Reason JSNull)) \<or>
      (\<exists>response. outcome = JsonRejects response (Reason JSUndefined))) \<and>
   (fields_convertible (Resolves response data) \<longleftrightarrow>
      \<not> shadows_toString (field data ''latitude'') \<and>
      \<not> shadows_toString (field data ''longitude'') \<and>
      \<not> shadows_toString (field data ''altitude''))"
proof (intro conjI impI)
  show "fst (loadPosition outcome w) = Returned \<longleftrightarrow>
      failure_path outcome \<and> \<not> unreadable outcome \<or> fields_convertible outcome"
  proof (cases "failure_path outcome")
    case True
    show ?thesis
    proof (cases "unreadable outcome")
      case True
      then obtain e where "loadPosition outcome w = (Threw e, w)"
        using loadPosition_unreadable by blast
      moreover from True have "\<not> fields_convertible outcome"
        by (cases outcome) (simp_all add: unreadable_def fields_convertible_def)
      ultimately show ?thesis using True by simp
    next
      case False
      with True show ?thesis using loadPosition_failure [of outcome w] by auto
    qed
  next
    case False
    then obtain r d where o: "outcome = Resolves r d" and k: "ok r"
      and v: "unexpected_payload d = Inr False"
      by (cases outcome) (auto simp add: failure_path_def unexpected_payload_eq split: if_splits)
    from v have t: "truthy d" by (simp add: unexpected_payload_eq)
    from False show ?thesis
      by (simp add: o loadPosition_validated [OF k v] set_metrics_returned [OF t]
          fields_convertible_def)
  qed
next
  assume "failure_path outcome \<and> \<not> unreadable outcome"
  then show "\<exists>m c. loadPosition outcome w = (Returned, logError m c w)"
    using loadPosition_failure by blast
next
  have r: "(case read_message c of Inl e \<Rightarrow> True | Inr m \<Rightarrow> False) \<longleftrightarrow>
      c = Reason JSNull \<or> c = Reason JSUndefined" for c
  proof (cases c)
    case (ErrorObject e)
    then show ?thesis by simp
  next
    case (Reason v)
    then show ?thesis by (cases v) simp_all
  qed
  show "unreadable outcome \<longleftrightarrow>
      outcome = FetchRejects (Reason JSNull) \<or> outcome = FetchRejects (Reason JSUndefined) \<or>
      (\<exists>response. outcome = JsonRejects response (Reason JSNull)) \<or>
      (\<exists>response. outcome = JsonRejects response (Reason JSUndefined))"
    by (cases outcome) (auto simp add: unreadable_def r)
next
  show "fields_convertible (Resolves response data) \<longleftrightarrow>
      \<not> shadows_toString (field data ''latitude'') \<and>
      \<not> shadows_toString (field data ''longitude'') \<and>
      \<not> shadows_toString (field data ''altitude'')"
    by (simp add: fields_convertible_def convertible_iff)
qed

theorem poll_returns_unless_coercion_throws_witness:
  "failure_path (Resolves response_200 reading_equator) \<and>
   \<not> unreadable (Resolves response_200 reading_equator) \<and>
   fst (loadPosition (Resolves response_200 reading_equator) initial_world) = Returned \<and>
   failure_path (FetchRejects (ErrorObject aborted)) \<and>
   \<not> unreadable (FetchRejects (ErrorObject aborted)) \<and>
   fst (loadPosition (FetchRejects (ErrorObject aborted)) initial_world) = Returned \<and>
   \<not> failure_path (Resolves response_200 reading_london) \<and>
   fields_convertible (Resolves response_200 reading_london) \<and>
   fst (loadPosition (Resolves response_200 reading_london) initial_world) = Returned"
proof -
  have f: "failure_path (Resolves response_200 reading_equator)"
    by (simp add: failure_path_def run_defs sample_defs)
  have u: "\<not> unreadable (Resolves response_200 reading_equator)"
    by (simp add: unreadable_def)
  have f': "failure_path (FetchRejects (ErrorObject aborted))"
    by (simp add: failure_path_def)
  have u': "\<not> unreadable (FetchRejects (ErrorObject aborted))"
    by (simp add: unreadable_def)
  have g: "\<not> failure_path (Resolves response_200 reading_london)"
    by (simp add: failure_path_def run_defs sample_defs)
  have c: "fields_convertible (Resolves response_200 reading_london)"
    by (simp add: fields_convertible_def convertible_def field_def own_property_def sample_defs)
  have 1: "fst (loadPosition (Resolves response_200 reading_equator) initial_world) = Returned"
    using f u poll_returns_unless_coercion_throws
      [of "Resolves response_200 reading_equator" initial_world]
    by blast
  have 2: "fst (loadPosition (FetchRejects (ErrorObject aborted)) initial_world) = Returned"
    using f' u' poll_returns_unless_coercion_throws
      [of "FetchRejects (ErrorObject aborted)" initial_world]
    by blast
  have 3: "fst (loadPosition (Resolves response_200 reading_london) initial_world) = Returned"
    using c poll_returns_unless_coercion_throws
      [of "Resolves response_200 reading_london" initial_world]
    by blast
  show ?thesis using f u f' u' g c 1 2 3 by blast
qed

text \<open>
  The claim "\<open>loadPosition\<close> never throws" fails on the payload
  \<^verbatim>\<open>{latitude: {"toString": null}, longitude: 1, altitude: 1}\<close> with status 200: the
  three fields are truthy, and \<^verbatim>\<open>Number(latitude)\<close> throws a TypeError.
\<close>

theorem poll_throws_on_opaque_latitude:
  "loadPosition
     (Resolves response_200 (position opaque (JSNumber (Finite 1)) (JSNumber (Finite 1))))
     initial_world = (Threw cannot_convert, initial_world)"
  by (simp add: run_defs sample_defs)

subsection \<open>The happy path\<close>

text \<open>
  C3, as the code has it: when the fetch and the parse succeed, the status is a
  success, the three fields are present and truthy, and \<^verbatim>\<open>Number\<close> converts each of
  them, the poll returns and each gauge is set, once, to the number its field converts
  to; a field that is a number converts to itself. Nothing is logged.
\<close>

theorem happy_path_sets_gauges:
  assumes "ok response"
    and "Get data ''latitude'' = Inr la" and "truthy la"
    and "Get data ''longitude'' = Inr lo" and "truthy lo"
    and "Get data ''altitude'' = Inr al" and "truthy al"
    and "Number la = Inr a" and "Number lo = Inr b" and "Number al = Inr c"
  shows "loadPosition (Resolves response data) w =
     (Returned,
      w\<lparr>latitudeMetric := gauge_set a (latitudeMetric w),
        longitudeMetric := gauge_set b (longitudeMetric w),
        altitudeMetric := gauge_set c (altitudeMetric w)\<rparr>) \<and>
     (\<forall>x. la = JSNumber x \<longrightarrow> a = Double x) \<and>
     (\<forall>y. lo = JSNumber y \<longrightarrow> b = Double y) \<and>
     (\<forall>z. al = JSNumber z \<longrightarrow> c = Double z)"
proof -
  have fl: "field data ''latitude'' = la" and fo: "field data ''longitude'' = lo"
    and fa: "field data ''altitude'' = al"
    using assms by (simp_all add: Get_field)
  have t: "truthy data" using fl \<open>truthy la\<close> field_truthy by blast
  have v: "unexpected_payload data = Inr False"
    using t assms by (simp add: unexpected_payload_eq fl fo fa)
  have "loadPosition (Resolves response data) w = set_metrics data w"
    using \<open>ok response\<close> v by (rule loadPosition_validated)
  moreover have "set_metrics data w =
     (Returned,
      w\<lparr>latitudeMetric := gauge_set a (latitudeMetric w),
        longitudeMetric := gauge_set b (longitudeMetric w),
        altitudeMetric := gauge_set c (altitudeMetric w)\<rparr>)"
    using t assms by (intro set_metrics_converted) (simp_all add: fl fo fa)
  ultimately show ?thesis using assms by auto
qed

text \<open>The reading 51.5, -0.1, 408.2 sets the three gauges to exactly 51.5, -0.1, 408.2.\<close>

theorem happy_path_sets_gauges_witness:
  "ok response_200 \<and>
   Get reading_london ''latitude'' = Inr (JSNumber (Finite (103 / 2))) \<and>
   Get reading_london ''longitude'' = Inr (JSNumber (Finite (- 1 / 10))) \<and>
   Get reading_london ''altitude'' = Inr (JSNumber (Finite (2041 / 5))) \<and>
   truthy (JSNumber (Finite (103 / 2))) \<and> truthy (JSNumber (Finite (- 1 / 10))) \<and>
   truthy (JSNumber (Finite (2041 / 5))) \<and>
   loadPosition (Resolves response_200 reading_london) initial_world =
     (Returned,
      \<lparr>latitudeMetric = \<lparr>current = Double (Finite (103 / 2)), set_calls = 1\<rparr>,
       longitudeMetric = \<lparr>current = Double (Finite (- 1 / 10)), set_calls = 1\<rparr>,
       altitudeMetric = \<lparr>current = Double (Finite (2041 / 5)), set_calls = 1\<rparr>,
       error_log = []\<rparr>)"
proof -
  have k: "ok response_200" by (simp add: ok_def response_200_def)
  have g1: "Get reading_london ''latitude'' = Inr (JSNumber (Finite (103 / 2)))"
    and g2: "Get reading_london ''longitude'' = Inr (JSNumber (Finite (- 1 / 10)))"
    and g3: "Get reading_london ''altitude'' = Inr (JSNumber (Finite (2041 / 5)))"
    by (simp_all add: reading_london_def position_def own_property_def)
  have t1: "truthy (JSNumber (Finite (103 / 2)))"
    and t2: "truthy (JSNumber (Finite (- 1 / 10)))"
    and t3: "truthy (JSNumber (Finite (2041 / 5)))"
    by simp_all
  have n1: "Number (JSNumber (Finite (103 / 2))) = Inr (Double (Finite (103 / 2)))"
    and n2: "Number (JSNumber (Finite (- 1 / 10))) = Inr (Double (Finite (- 1 / 10)))"
    and n3: "Number (JSNumber (Finite (2041 / 5))) = Inr (Double (Finite (2041 / 5)))"
    by simp_all
  show ?thesis
    using k g1 g2 g3 t1 t2 t3
      happy_path_sets_gauges [OF k g1 t1 g2 t2 g3 t3 n1 n2 n3, of initial_world]
    by (simp add: initial_world_def fresh_gauge_def gauge_set_def)
qed

text \<open>
  Truthy fields alone do not give the happy path: with
  \<^verbatim>\<open>{latitude: 51.5, longitude: -0.1, altitude: {"toString": null}}\<close> and status 200 the
  altitude is not coerced to a number and its gauge is never set.
\<close>

theorem happy_path_fails_on_opaque_altitude:
  "ok response_200 \<and>
   truthy (field (position (JSNumber (Finite (103 / 2))) (JSNumber (Finite (- 1 / 10))) opaque)
     ''latitude'') \<and>
   truthy (field (position (JSNumber (Finite (103 / 2))) (JSNumber (Finite (- 1 / 10))) opaque)
     ''longitude'') \<and>
   truthy (field (position (JSNumber (Finite (103 / 2))) (JSNumber (Finite (- 1 / 10))) opaque)
     ''altitude'') \<and>
   loadPosition
     (Resolves response_200
       (position (JSNumber (Finite (103 / 2))) (JSNumber (Finite (- 1 / 10))) opaque))
     initial_world =
     (Threw cannot_convert,
      \<lparr>latitudeMetric = \<lparr>current = Double (Finite (103 / 2)), set_calls = 1\<rparr>,
       longitudeMetric = \<lparr>current = Double (Finite (- 1 / 10)), set_calls = 1\<rparr>,
       altitudeMetric = fresh_gauge,
       error_log = []\<rparr>)"
  by (simp add: run_defs sample_defs field_def)

subsection \<open>Validation by truthiness\<close>

text \<open>
  C4, as the code has it: when the fetch and the parse succeed, the status is a
  success, and one of \<^verbatim>\<open>latitude\<close>, \<^verbatim>\<open>longitude\<close>, \<^verbatim>\<open>altitude\<close> is exactly zero (of
  either sign), validation fails: the error "Unexpected payload" is logged with the
  raw data as its context, no gauge is touched, and the call returns.
\<close>

theorem zero_field_is_unexpected_payload:
  assumes "ok response"
    and "k \<in> {''latitude'', ''longitude'', ''altitude''}"
    and "Get data k = Inr (JSNumber z)"
    and "z = Finite 0 \<or> z = NegZero"
  shows "loadPosition (Resolves response data) w =
     (Returned,
      logError ''Failed to parse ISS position data: Unexpected payload'' (DataContext data) w) \<and>
   latitudeMetric (snd (loadPosition (Resolves response data) w)) = latitudeMetric w \<and>
   longitudeMetric (snd (loadPosition (Resolves response data) w)) = longitudeMetric w \<and>
   altitudeMetric (snd (loadPosition (Resolves response data) w)) = altitudeMetric w"
proof -
  have "field data k = JSNumber z" using assms(3) by (rule Get_field)
  with assms(4) have "\<not> truthy (field data k)" by auto
  with assms(2) have "unexpected_payload data = Inr True"
    by (auto simp add: unexpected_payload_eq)
  with assms(1) show ?thesis by (simp add: loadPosition_def logError_def)
qed

theorem zero_field_is_unexpected_payload_witness:
  "ok response_200 \<and>
   ''latitude'' \<in> {''latitude'', ''longitude'', ''altitude''} \<and>
   Get reading_equator ''latitude'' = Inr (JSNumber (Finite 0)) \<and>
   loadPosition (Resolves response_200 reading_equator) initial_world =
     (Returned,
      initial_world\<lparr>error_log :=
        [(''Failed to parse ISS position data: Unexpected payload'',
          DataContext reading_equator)]\<rparr>)"
proof -
  have k: "ok response_200" by (simp add: ok_def response_200_def)
  have m: "''latitude'' \<in> {''latitude'', ''longitude'', ''altitude''}" by simp
  have g: "Get reading_equator ''latitude'' = Inr (JSNumber (Finite 0))"
    by (simp add: reading_equator_def position_def own_property_def)
  have z: "Finite 0 = Finite 0 \<or> Finite 0 = NegZero" by simp
  show ?thesis
    using k m g zero_field_is_unexpected_payload [OF k m g z, of initial_world]
    by (simp add: logError_def initial_world_def)
qed

text \<open>
  Without the success status the claim fails: the payload
  \<^verbatim>\<open>{latitude: 0, longitude: 12.3, altitude: 400}\<close> fetched and parsed with status 500
  is never validated; the one entry logged is that of the status check.
\<close>

theorem zero_reading_with_bad_status:
  "Get reading_equator ''latitude'' = Inr (JSNumber (Finite 0)) \<and>
   loadPosition (Resolves response_500 reading_equator) initial_world =
     (Returned,
      initial_world\<lparr>error_log :=
        [(''Failed to fetch ISS position data: Internal Server Error'',
          ResponseContext response_500)]\<rparr>)"
  by (simp add: run_defs sample_defs)

text \<open>
  C10, as the code has it: validation checks truthiness, not type. When the fetch and
  the parse succeed, the status is a success, and the three fields are truthy values
  that \<^verbatim>\<open>Number\<close> converts (every string, boolean and number is; an object or array is
  unless it has, or holds, an own property \<^verbatim>\<open>toString\<close>), validation passes, each gauge
  is set to \<^verbatim>\<open>Number(field)\<close>, and nothing is logged. For a string that is not a numeric
  literal that number is NaN.
\<close>

theorem truthy_non_numbers_are_published:
  assumes "ok response"
    and "Get data ''latitude'' = Inr la" and "truthy la" and "convertible la"
    and "Get data ''longitude'' = Inr lo" and "truthy lo" and "convertible lo"
    and "Get data ''altitude'' = Inr al" and "truthy al" and "convertible al"
  shows "fst (loadPosition (Resolves response data) w) = Returned \<and>
     Number la = Inr (current (latitudeMetric (snd (loadPosition (Resolves response data) w)))) \<and>
     Number lo = Inr (current (longitudeMetric (snd (loadPosition (Resolves response data) w)))) \<and>
     Number al = Inr (current (altitudeMetric (snd (loadPosition (Resolves response data) w)))) \<and>
     error_log (snd (loadPosition (Resolves response data) w)) = error_log w \<and>
     (\<forall>s. la = JSString s \<and> \<not> StringNumericLiteral s \<longrightarrow>
        current (latitudeMetric (snd (loadPosition (Resolves response data) w))) = Double NaN) \<and>
     (\<forall>s. lo = JSString s \<and> \<not> StringNumericLiteral s \<longrightarrow>
        current (longitudeMetric (snd (loadPosition (Resolves response data) w))) = Double NaN) \<and>
     (\<forall>s. al = JSString s \<and> \<not> StringNumericLiteral s \<longrightarrow>
        current (altitudeMetric (snd (loadPosition (Resolves response data) w))) = Double NaN)"
proof -
  have fl: "field data ''latitude'' = la" and fo: "field data ''longitude'' = lo"
    and fa: "field data ''altitude'' = al"
    using assms by (simp_all add: Get_field)
  have t: "truthy data" using fl \<open>truthy la\<close> field_truthy by blast
  have v: "unexpected_payload data = Inr False"
    using t assms by (simp add: unexpected_payload_eq fl fo fa)
  obtain a b c where n: "Number la = Inr a" "Number lo = Inr b" "Number al = Inr c"
    using assms by (auto simp add: convertible_def split: sum.splits)
  have "set_metrics data w =
     (Returned,
      w\<lparr>latitudeMetric := gauge_set a (latitudeMetric w),
        longitudeMetric := gauge_set b (longitudeMetric w),
        altitudeMetric := gauge_set c (altitudeMetric w)\<rparr>)"
    using t n by (intro set_metrics_converted) (simp_all add: fl fo fa)
  then have l: "loadPosition (Resolves response data) w =
     (Returned,
      w\<lparr>latitudeMetric := gauge_set a (latitudeMetric w),
        longitudeMetric := gauge_set b (longitudeMetric w),
        altitudeMetric := gauge_set c (altitudeMetric w)\<rparr>)"
    using \<open>ok response\<close> v by (simp add: loadPosition_validated)
  have "a = Double NaN" if "la = JSString s" and "\<not> StringNumericLiteral s" for s
    using that n(1) Number_non_numeric_string [of s] by simp
  moreover have "b = Double NaN" if "lo = JSString s" and "\<not> StringNumericLiteral s" for s
    using that n(2) Number_non_numeric_string [of s] by simp
  moreover have "c = Double NaN" if "al = JSString s" and "\<not> StringNumericLiteral s" for s
    using that n(3) Number_non_numeric_string [of s] by simp
  ultimately show ?thesis using n by (simp add: l gauge_set_def)
qed

theorem truthy_non_numbers_are_published_witness:
  "ok response_200 \<and>
   \<not> StringNumericLiteral ''abc'' \<and>
   loadPosition
     (Resolves response_200 (position (JSString ''abc'') (JSString ''-0.1'') (JSBoolean True)))
     initial_world =
     (Returned,
      \<lparr>latitudeMetric = \<lparr>current = Double NaN, set_calls = 1\<rparr>,
       longitudeMetric = \<lparr>current = Parsed [Chars ''-0.1''], set_calls = 1\<rparr>,
       altitudeMetric = \<lparr>current = Double (Finite 1), set_calls = 1\<rparr>,
       error_log = []\<rparr>) \<and>
   fst (loadPosition
     (Resolves response_200 (position (JSString ''abc'') (JSString ''-0.1'') (JSBoolean True)))
     initial_world) = Returned \<and>
   error_log (snd (loadPosition
     (Resolves response_200 (position (JSString ''abc'') (JSString ''-0.1'') (JSBoolean True)))
     initial_world)) = error_log initial_world"
proof -
  let ?d = "position (JSString ''abc'') (JSString ''-0.1'') (JSBoolean True)"
  have k: "ok response_200" by (simp add: ok_def response_200_def)
  have g1: "Get ?d ''latitude'' = Inr (JSString ''abc'')"
    and g2: "Get ?d ''longitude'' = Inr (JSString ''-0.1'')"
    and g3: "Get ?d ''altitude'' = Inr (JSBoolean True)"
    by (simp_all add: position_def own_property_def)
  have t1: "truthy (JSString ''abc'')" and t2: "truthy (JSString ''-0.1'')"
    and t3: "truthy (JSBoolean True)"
    by simp_all
  have c1: "convertible (JSString ''abc'')" and c2: "convertible (JSString ''-0.1'')"
    and c3: "convertible (JSBoolean True)"
    by (simp_all add: convertible_def)
  have s: "\<not> StringNumericLiteral ''abc''"
    by (simp add: StringNumericLiteral_def StrWhiteSpaceChar_def StrDecimalLiteral_def
        StrUnsignedDecimalLiteral_def DecimalDigit_def NonDecimalIntegerLiteral_def)
  have e: "loadPosition (Resolves response_200 ?d) initial_world =
     (Returned,
      \<lparr>latitudeMetric = \<lparr>current = Double NaN, set_calls = 1\<rparr>,
       longitudeMetric = \<lparr>current = Parsed [Chars ''-0.1''], set_calls = 1\<rparr>,
       altitudeMetric = \<lparr>current = Double (Finite 1), set_calls = 1\<rparr>,
       error_log = []\<rparr>)"
    by (simp add: run_defs sample_defs StringNumericLiteral_def StrWhiteSpaceChar_def
        StrDecimalLiteral_def StrUnsignedDecimalLiteral_def DecimalDigit_def
        NonDecimalIntegerLiteral_def ExponentPart_opt_def)
  show ?thesis
    using k s e truthy_non_numbers_are_published [OF k g1 t1 c1 g2 t2 c2 g3 t3 c3, of initial_world]
    by simp
qed

text \<open>
  Truthy fields that are not numbers need not be published: with
  \<^verbatim>\<open>{latitude: "abc", longitude: [{"toString": null}], altitude: true}\<close> and status 200
  the latitude gauge is set to NaN, \<^verbatim>\<open>Number(longitude)\<close> throws, and the longitude and
  altitude gauges are never set.
\<close>

theorem truthy_non_numbers_can_throw:
  "ok response_200 \<and>
   truthy (JSString ''abc'') \<and> truthy (JSArray [opaque]) \<and> truthy (JSBoolean True) \<and>
   loadPosition
     (Resolves response_200 (position (JSString ''abc'') (JSArray [opaque]) (JSBoolean True)))
     initial_world =
     (Threw cannot_convert,
      \<lparr>latitudeMetric = \<lparr>current = Double NaN, set_calls = 1\<rparr>,
       longitudeMetric = fresh_gauge,
       altitudeMetric = fresh_gauge,
       error_log = []\<rparr>)"
  by (simp add: run_defs sample_defs StringNumericLiteral_def StrWhiteSpaceChar_def
      StrDecimalLiteral_def StrUnsignedDecimalLiteral_def DecimalDigit_def
      NonDecimalIntegerLiteral_def)

subsection \<open>All three gauges or none\<close>

text \<open>
  C8, as the code has it: in every poll that returns normally, either all three gauges
  are set, each exactly once, or none is touched.
\<close>

theorem returned_poll_sets_all_or_none:
  assumes "fst (loadPosition outcome w) = Returned"
  shows "(set_calls (latitudeMetric (snd (loadPosition outcome w))) =
            Suc (set_calls (latitudeMetric w)) \<and>
          set_calls (longitudeMetric (snd (loadPosition outcome w))) =
            Suc (set_calls (longitudeMetric w)) \<and>
          set_calls (altitudeMetric (snd (loadPosition outcome w))) =
            Suc (set_calls (altitudeMetric w))) \<or>
         (latitudeMetric (snd (loadPosition outcome w)) = latitudeMetric w \<and>
          longitudeMetric (snd (loadPosition outcome w)) = longitudeMetric w \<and>
          altitudeMetric (snd (loadPosition outcome w)) = altitudeMetric w)"
proof (cases "failure_path outcome")
  case True
  then show ?thesis using failure_keeps_gauges [of outcome w] by blast
next
  case False
  then obtain r d where o: "outcome = Resolves r d" and k: "ok r"
    and v: "unexpected_payload d = Inr False"
    by (cases outcome) (auto simp add: failure_path_def unexpected_payload_eq split: if_splits)
  from v have t: "truthy d" by (simp add: unexpected_payload_eq)
  have l: "loadPosition outcome w = set_metrics d w"
    unfolding o using k v by (rule loadPosition_validated)
  with assms have "convertible (field d ''latitude'') \<and> convertible (field d ''longitude'') \<and>
      convertible (field d ''altitude'')"
    by (simp add: set_metrics_returned [OF t])
  then obtain a b c where "Number (field d ''latitude'') = Inr a"
    and "Number (field d ''longitude'') = Inr b" and "Number (field d ''altitude'') = Inr c"
    by (auto simp add: convertible_def split: sum.splits)
  then have "set_metrics d w =
     (Returned,
      w\<lparr>latitudeMetric := gauge_set a (latitudeMetric w),
        longitudeMetric := gauge_set b (longitudeMetric w),
        altitudeMetric := gauge_set c (altitudeMetric w)\<rparr>)"
    using t by (intro set_metrics_converted)
  then show ?thesis by (simp add: l gauge_set_def)
qed

theorem returned_poll_sets_all_or_none_witness:
  "fst (loadPosition (Resolves response_200 reading_london) initial_world) = Returned \<and>
   set_calls (latitudeMetric (snd (loadPosition (Resolves response_200 reading_london)
     initial_world))) = 1 \<and>
   set_calls (longitudeMetric (snd (loadPosition (Resolves response_200 reading_london)
     initial_world))) = 1 \<and>
   set_calls (altitudeMetric (snd (loadPosition (Resolves response_200 reading_london)
     initial_world))) = 1"
proof -
  have r: "fst (loadPosition (Resolves response_200 reading_london) initial_world) = Returned"
    by (simp add: london_poll)
  show ?thesis
    using returned_poll_sets_all_or_none [OF r]
    unfolding london_poll by (simp add: initial_world_def fresh_gauge_def)
qed

text \<open>
  A poll can set a strict part of the gauges: with
  \<^verbatim>\<open>{latitude: 1, longitude: {"toString": null}, altitude: 1}\<close> and status 200 the
  latitude gauge is set, then \<^verbatim>\<open>Number(longitude)\<close> throws, and the other two gauges are
  not set.
\<close>

theorem partial_update_on_opaque_longitude:
  "set_calls (latitudeMetric (snd (loadPosition
     (Resolves response_200 (position (JSNumber (Finite 1)) opaque (JSNumber (Finite 1))))
     initial_world))) = 1 \<and>
   set_calls (longitudeMetric (snd (loadPosition
     (Resolves response_200 (position (JSNumber (Finite 1)) opaque (JSNumber (Finite 1))))
     initial_world))) = 0 \<and>
   set_calls (altitudeMetric (snd (loadPosition
     (Resolves response_200 (position (JSNumber (Finite 1)) opaque (JSNumber (Finite 1))))
     initial_world))) = 0"
  by (simp add: run_defs sample_defs)

subsection \<open>The scheduler does not overlap invocations\<close>

text \<open>
  C9: in the schedule every duration gets its invocation; an invocation has settled
  before any later one starts, so no two overlap; the timer for the next invocation is
  armed when the current one settles, and the next one starts one interval after that,
  however long the current one took: a slow poll delays the next one and does not
  stack it.
\<close>

theorem scheduled_invocations_never_overlap:
  "length (schedule intervalMs now ds) = length ds \<and>
   (\<forall>i j. i < j \<and> j < length ds \<longrightarrow>
      settled (schedule intervalMs now ds ! i) \<le> started (schedule intervalMs now ds ! j)) \<and>
   (\<forall>i. Suc i < length ds \<longrightarrow>
      timer_armed (schedule intervalMs now ds ! i) = settled (schedule intervalMs now ds ! i) \<and>
      started (schedule intervalMs now ds ! i) \<le> settled (schedule intervalMs now ds ! i) \<and>
      started (schedule intervalMs now ds ! Suc i) =
        timer_armed (schedule intervalMs now ds ! i) + intervalMs)"
  using schedule_length schedule_no_overlap schedule_next by blast

text \<open>With an interval of 1000 ms, a first poll of 2500 ms puts the second at 3500 ms.\<close>

theorem scheduled_invocations_never_overlap_witness:
  "schedule 1000 0 [2500, 100, 100] =
     [\<lparr>started = 0, settled = 2500, timer_armed = 2500\<rparr>,
      \<lparr>started = 3500, settled = 3600, timer_armed = 3600\<rparr>,
      \<lparr>started = 4600, settled = 4700, timer_armed = 4700\<rparr>] \<and>
   (0::nat) < 1 \<and> (1::nat) < length [2500, 100, 100 :: nat] \<and>
   settled (schedule 1000 0 [2500, 100, 100] ! 0) \<le> started (schedule 1000 0 [2500, 100, 100] ! 1) \<and>
   started (schedule 1000 0 [2500, 100, 100] ! 1) =
     timer_armed (schedule 1000 0 [2500, 100, 100] ! 0) + 1000"
proof -
  have a: "(0::nat) < 1 \<and> (1::nat) < length [2500, 100, 100 :: nat]" by simp
  have b: "Suc 0 < length [2500, 100, 100 :: nat]" by simp
  have e: "schedule 1000 0 [2500, 100, 100] =
     [\<lparr>started = 0, settled = 2500, timer_armed = 2500\<rparr>,
      \<lparr>started = 3500, settled = 3600, timer_armed = 3600\<rparr>,
      \<lparr>started = 4600, settled = 4700, timer_armed = 4700\<rparr>]"
    by simp
  note t = scheduled_invocations_never_overlap [of 1000 0 "[2500, 100, 100]"]
  have c: "settled (schedule 1000 0 [2500, 100, 100] ! 0)
      \<le> started (schedule 1000 0 [2500, 100, 100] ! 1)"
    using t a by blast
  have d: "started (schedule 1000 0 [2500, 100, 100] ! 1) =
     timer_armed (schedule 1000 0 [2500, 100, 100] ! 0) + 1000"
    using t b by (metis One_nat_def)
  show ?thesis using a c d e by blast
qed

end
